theory Spec2Isabelle
  imports Complex_Main
begin

section \<open>The roipoly module: data model\<close>

text \<open>
  The module \<^verbatim>\<open>roipoly.py\<close> holds two classes, \<^verbatim>\<open>RoiPoly\<close> (one polygon drawn with the
  mouse) and \<^verbatim>\<open>MultiRoi\<close> (several of them on one figure), and a handful of deprecated
  aliases. Python floats are read as real numbers, Python exceptions are values of type
  \<open>error\<close>, and everything the module asks of matplotlib, of \<^verbatim>\<open>sys\<close> and of
  \<^verbatim>\<open>warnings\<close> goes through an explicit \<open>world\<close> that every operation takes and returns.
\<close>

datatype error = IndexError | ZeroDivisionError

type_synonym kwargs = "(string \<times> string) list"

text \<open>A \<^verbatim>\<open>plt.Line2D\<close> object: its data, marker, colour and further keyword arguments.\<close>

record line2d =
  line_xdata :: "real list"
  line_ydata :: "real list"
  line_marker :: "string option"
  line_color :: string
  line_kwargs :: kwargs

text \<open>
  The requests sent to the plotting library, in the order they are made. Figures and axes
  are identified by numbers. The label of \<^verbatim>\<open>plt.text\<close> is kept as the pair of numbers that
  the format \<^verbatim>\<open>"%.3f +- %.3f"\<close> is applied to (\<open>None\<close> stands for NaN); its constant
  \<^verbatim>\<open>bbox\<close> argument is left out.
\<close>

datatype render_call =
    Add_line nat line2d
  | Canvas_draw nat
  | Plt_draw
  | Plt_show bool
  | Plt_close nat
  | Set_title nat string
  | Plt_text real real "real option \<times> real option" string kwargs
  | Plt_axes
  | Make_button string

text \<open>
  Python's warning filter knows several actions; the two that matter are \<^verbatim>\<open>'always'\<close>
  (every call of \<^verbatim>\<open>warnings.warn\<close> is shown) and the interpreter's once-per-location
  behaviour (a message already shown from a location is not shown again).
\<close>

datatype filter_action = Always | Once_per_location

record world =
  interactive :: bool
  gcf :: nat
  gca :: nat
  fig_gca :: "nat \<Rightarrow> nat"
  connected :: "nat list"
  next_cid :: nat
  closed_figs :: "nat list"
  calls :: "render_call list"
  deprecation_filter :: filter_action
  emitted :: "string list"

text \<open>
  A \<^verbatim>\<open>RoiPoly\<close> object. The fields \<^verbatim>\<open>x\<close>, \<^verbatim>\<open>y\<close>, \<^verbatim>\<open>line\<close>, \<^verbatim>\<open>color\<close>, \<^verbatim>\<open>fig\<close> and \<^verbatim>\<open>ax\<close> carry
  the prefix \<open>self_\<close>; \<open>cid1\<close> and \<open>cid2\<close> are the private fields \<^verbatim>\<open>__cid1\<close> and
  \<^verbatim>\<open>__cid2\<close>. The point fields are Python lists: empty at first, \<^verbatim>\<open>[x, y]\<close> later.
\<close>

record roi_poly =
  start_point :: "real list"
  end_point :: "real list"
  previous_point :: "real list"
  self_x :: "real list"
  self_y :: "real list"
  self_line :: "line2d option"
  completed :: bool
  self_color :: string
  self_fig :: nat
  self_ax :: nat
  close_figure :: bool
  cid1 :: nat
  cid2 :: nat

text \<open>
  A matplotlib mouse event: the axes it happened in (\<open>None\<close> outside every axes), the data
  coordinates (meaningful inside an axes only), the button (1 is the primary, 3 the
  secondary one, \<open>None\<close> for a motion with no button held) and the double-click flag.
\<close>

record event =
  inaxes :: "nat option"
  xdata :: real
  ydata :: real
  button :: "nat option"
  dblclick :: bool

section \<open>Library calls as world updates\<close>

text \<open>
  Line 12 of the module installs the action \<^verbatim>\<open>'always'\<close> for \<^verbatim>\<open>DeprecationWarning\<close> when
  the module is loaded.
\<close>

definition module_load :: "world \<Rightarrow> world" where
  "module_load w = w\<lparr>deprecation_filter := Always\<rparr>"

definition warnings_warn :: "string \<Rightarrow> world \<Rightarrow> world" where
  "warnings_warn message w =
     (case deprecation_filter w of
        Always \<Rightarrow> w\<lparr>emitted := emitted w @ [message]\<rparr>
      | Once_per_location \<Rightarrow>
          (if message \<in> set (emitted w) then w else w\<lparr>emitted := emitted w @ [message]\<rparr>))"

definition deprecation :: "string \<Rightarrow> world \<Rightarrow> world" where
  "deprecation message w = warnings_warn message w"

definition request :: "render_call list \<Rightarrow> world \<Rightarrow> world" where
  "request cs w = w\<lparr>calls := calls w @ cs\<rparr>"

definition mpl_connect :: "world \<Rightarrow> nat \<times> world" where
  "mpl_connect w = (next_cid w, w\<lparr>connected := connected w @ [next_cid w], next_cid := Suc (next_cid w)\<rparr>)"

definition mpl_disconnect :: "nat \<Rightarrow> world \<Rightarrow> world" where
  "mpl_disconnect cid w = w\<lparr>connected := removeAll cid (connected w)\<rparr>"

definition plt_close :: "nat \<Rightarrow> world \<Rightarrow> world" where
  "plt_close f w = (request [Plt_close f] w)\<lparr>closed_figs := closed_figs w @ [f]\<rparr>"

definition Line2D :: "real list \<Rightarrow> real list \<Rightarrow> string option \<Rightarrow> string \<Rightarrow> kwargs \<Rightarrow> line2d" where
  "Line2D xd yd m c kw =
     \<lparr>line_xdata = xd, line_ydata = yd, line_marker = m, line_color = c, line_kwargs = kw\<rparr>"

definition set_data :: "real list \<Rightarrow> real list \<Rightarrow> line2d \<Rightarrow> line2d" where
  "set_data xd yd l = l\<lparr>line_xdata := xd, line_ydata := yd\<rparr>"

text \<open>Reading \<^verbatim>\<open>p[0]\<close> and \<^verbatim>\<open>p[1]\<close> of a Python list raises \<^verbatim>\<open>IndexError\<close> on a short list.\<close>

definition point2 :: "real list \<Rightarrow> error + (real \<times> real)" where
  "point2 p = (if length p < 2 then Inl IndexError else Inr (p ! 0, p ! 1))"

section \<open>RoiPoly\<close>

definition show_figure :: "world \<Rightarrow> world" where
  "show_figure w = (if interactive w then request [Plt_show False] w else request [Plt_show True] w)"

definition RoiPoly_init ::
  "nat option \<Rightarrow> nat option \<Rightarrow> string \<Rightarrow> string option \<Rightarrow> bool \<Rightarrow> bool \<Rightarrow> world \<Rightarrow> roi_poly \<times> world" where
  "RoiPoly_init fig ax color roicolor show_fig close_fig w =
     (let w1 = (case roicolor of None \<Rightarrow> w
                | Some rc \<Rightarrow> deprecation ''Use 'color' instead of 'roicolor'!'' w);
          color1 = (case roicolor of None \<Rightarrow> color | Some rc \<Rightarrow> rc);
          fig1 = (case fig of None \<Rightarrow> gcf w1 | Some f \<Rightarrow> f);
          ax1 = (case ax of None \<Rightarrow> gca w1 | Some a \<Rightarrow> a);
          (c1, w2) = mpl_connect w1;
          (c2, w3) = mpl_connect w2;
          self = \<lparr>start_point = [], end_point = [], previous_point = [],
                  self_x = [], self_y = [], self_line = None, completed = False,
                  self_color = color1, self_fig = fig1, self_ax = ax1,
                  close_figure = close_fig, cid1 = c1, cid2 = c2\<rparr>
      in (self, if show_fig then show_figure w3 else w3))"

definition get_roi_coordinates :: "roi_poly \<Rightarrow> (real \<times> real) list" where
  "get_roi_coordinates self = zip (self_x self) (self_y self)"

definition motion_notify_callback :: "roi_poly \<Rightarrow> event \<Rightarrow> world \<Rightarrow> error + (roi_poly \<times> world)" where
  "motion_notify_callback self e w =
     (if inaxes e = Some (self_ax self) then
        (case self_line self of
           Some l \<Rightarrow>
             (if button e = None \<or> button e = Some 1 then
                (case point2 (previous_point self) of
                   Inl err \<Rightarrow> Inl err
                 | Inr (p0, p1) \<Rightarrow>
                     Inr (self\<lparr>self_line := Some (set_data [p0, xdata e] [p1, ydata e] l)\<rparr>,
                          request [Canvas_draw (self_fig self)] w))
              else Inr (self, w))
         | None \<Rightarrow> Inr (self, w))
      else Inr (self, w))"

text \<open>The two branches of a single primary click (lines 180 to 204).\<close>

definition first_vertex :: "roi_poly \<Rightarrow> event \<Rightarrow> world \<Rightarrow> error + (roi_poly \<times> world)" where
  "first_vertex self e w =
     (let l = Line2D [xdata e, xdata e] [ydata e, ydata e] (Some ''o'') (self_color self) []
      in Inr (self\<lparr>self_line := Some l,
                   start_point := [xdata e, ydata e],
                   previous_point := [xdata e, ydata e],
                   self_x := [xdata e],
                   self_y := [ydata e]\<rparr>,
              request [Add_line (self_ax self) l, Canvas_draw (self_fig self)] w))"

definition next_vertex :: "roi_poly \<Rightarrow> event \<Rightarrow> world \<Rightarrow> error + (roi_poly \<times> world)" where
  "next_vertex self e w =
     (case point2 (previous_point self) of
        Inl err \<Rightarrow> Inl err
      | Inr (p0, p1) \<Rightarrow>
          (let l = Line2D [p0, xdata e] [p1, ydata e] (Some ''o'') (self_color self) []
           in Inr (self\<lparr>self_line := Some l,
                        previous_point := [xdata e, ydata e],
                        self_x := self_x self @ [xdata e],
                        self_y := self_y self @ [ydata e]\<rparr>,
                   request [Add_line (self_ax self) l, Canvas_draw (self_fig self)] w)))"

text \<open>The closing gesture on a session that has a line (lines 209 to 230).\<close>

definition close_loop :: "roi_poly \<Rightarrow> line2d \<Rightarrow> world \<Rightarrow> error + (roi_poly \<times> world)" where
  "close_loop self l w =
     (if length (self_x self) = 1 \<and> length (self_y self) = 1 then
        Inr (self\<lparr>completed := True\<rparr>, w)
      else
        (case point2 (previous_point self) of
           Inl err \<Rightarrow> Inl err
         | Inr (p0, p1) \<Rightarrow>
             (case point2 (start_point self) of
                Inl err \<Rightarrow> Inl err
              | Inr (s0, s1) \<Rightarrow>
                  (let l1 = set_data [p0, s0] [p1, s1] l
                   in Inr (self\<lparr>self_line := None, completed := True\<rparr>,
                           request [Add_line (self_ax self) l1, Canvas_draw (self_fig self)]
                             (mpl_disconnect (cid2 self) (mpl_disconnect (cid1 self) w)))))))"

definition auto_close :: "roi_poly \<Rightarrow> world \<Rightarrow> world" where
  "auto_close self w =
     (if \<not> interactive w \<and> close_figure self then plt_close (self_fig self) w else w)"

definition closing_gesture :: "event \<Rightarrow> bool" where
  "closing_gesture e \<longleftrightarrow>
     (button e = Some 1 \<and> dblclick e) \<or> (button e = Some 3 \<and> \<not> dblclick e)"

definition button_press_callback :: "roi_poly \<Rightarrow> event \<Rightarrow> world \<Rightarrow> error + (roi_poly \<times> world)" where
  "button_press_callback self e w =
     (if inaxes e = Some (self_ax self) then
        (if button e = Some 1 \<and> \<not> dblclick e then
           (case self_line self of
              None \<Rightarrow> first_vertex self e w
            | Some l \<Rightarrow> next_vertex self e w)
         else if closing_gesture e then
           (case self_line self of
              None \<Rightarrow> Inr (self, w)
            | Some l \<Rightarrow>
                (case close_loop self l w of
                   Inl err \<Rightarrow> Inl err
                 | Inr (self1, w1) \<Rightarrow> Inr (self1, auto_close self1 w1)))
         else Inr (self, w))
      else Inr (self, w))"

text \<open>
  The canvas calls a handler only while its connection id is registered; a mouse event is
  a motion or a button press, and a run of events stops at the first exception.
\<close>

datatype mouse = Motion event | Button_press event

fun deliver :: "roi_poly \<Rightarrow> mouse \<Rightarrow> world \<Rightarrow> error + (roi_poly \<times> world)" where
  "deliver self (Motion e) w =
     (if cid1 self \<in> set (connected w) then motion_notify_callback self e w else Inr (self, w))"
| "deliver self (Button_press e) w =
     (if cid2 self \<in> set (connected w) then button_press_callback self e w else Inr (self, w))"

fun run_events :: "roi_poly \<Rightarrow> mouse list \<Rightarrow> world \<Rightarrow> error + (roi_poly \<times> world)" where
  "run_events self [] w = Inr (self, w)"
| "run_events self (m # ms) w =
     (case deliver self m w of
        Inl err \<Rightarrow> Inl err
      | Inr (self1, w1) \<Rightarrow> run_events self1 ms w1)"

section \<open>Mask and statistics\<close>

text \<open>
  A two-dimensional numpy array: its shape \<^verbatim>\<open>(ny, nx)\<close> and its elements in row-major
  order, as \<^verbatim>\<open>flatten\<close>, \<^verbatim>\<open>reshape\<close> and \<^verbatim>\<open>np.extract\<close> see them.
\<close>

record 'a ndarray =
  shape_ny :: nat
  shape_nx :: nat
  flat :: "'a list"

text \<open>
  \<^verbatim>\<open>MplPath(poly_verts).contains_points\<close> is matplotlib's; the module only calls it. It
  is a parameter here: a test that takes the vertex list of the path and one point.
\<close>

type_synonym containment = "(real \<times> real) list \<Rightarrow> real \<times> real \<Rightarrow> bool"

definition poly_verts :: "roi_poly \<Rightarrow> error + (real \<times> real) list" where
  "poly_verts self =
     (case self_x self of
        [] \<Rightarrow> Inl IndexError
      | x0 # _ \<Rightarrow>
          (case self_y self of
             [] \<Rightarrow> Inl IndexError
           | y0 # _ \<Rightarrow> Inr ([(x0, y0)] @ zip (rev (self_x self)) (rev (self_y self)))))"

text \<open>
  \<^verbatim>\<open>np.meshgrid(np.arange(nx), np.arange(ny))\<close>, flattened and stacked: the point of index
  \<open>r * nx + c\<close> is \<open>(c, r)\<close>.
\<close>

definition grid_points :: "nat \<Rightarrow> nat \<Rightarrow> (real \<times> real) list" where
  "grid_points ny nx = concat (map (\<lambda>r. map (\<lambda>c. (real c, real r)) [0..<nx]) [0..<ny])"

definition get_mask :: "containment \<Rightarrow> roi_poly \<Rightarrow> 'a ndarray \<Rightarrow> error + bool ndarray" where
  "get_mask contains_points self img =
     (let ny = shape_ny img; nx = shape_nx img in
      case poly_verts self of
        Inl err \<Rightarrow> Inl err
      | Inr pv \<Rightarrow>
          Inr \<lparr>shape_ny = ny, shape_nx = nx,
               flat = map (contains_points pv) (grid_points ny nx)\<rparr>)"

text \<open>
  Modelled from the spec: \<^verbatim>\<open>np.extract\<close>, \<^verbatim>\<open>np.mean\<close> and \<^verbatim>\<open>np.std\<close> are numpy's, the
  module only calls them, with their default arguments. \<^verbatim>\<open>np.extract(mask, image)\<close> keeps
  the elements of the flattened image at which the flattened mask is true. \<^verbatim>\<open>np.mean\<close> is
  the arithmetic mean, and \<^verbatim>\<open>np.std\<close> with the default \<^verbatim>\<open>ddof=0\<close> is
  \<^verbatim>\<open>sqrt(mean(abs(a - a.mean())**2))\<close>; on an empty array both give NaN, written \<open>None\<close>.
\<close>

definition np_extract :: "bool ndarray \<Rightarrow> 'a ndarray \<Rightarrow> 'a list" where
  "np_extract condition arr = map snd (filter fst (zip (flat condition) (flat arr)))"

definition np_mean :: "real list \<Rightarrow> real option" where
  "np_mean a = (if a = [] then None else Some (sum_list a / real (length a)))"

definition np_std :: "real list \<Rightarrow> real option" where
  "np_std a =
     (case np_mean a of
        None \<Rightarrow> None
      | Some m \<Rightarrow> map_option sqrt (np_mean (map (\<lambda>v. \<bar>v - m\<bar> ^ 2) a)))"

definition get_mean_and_std ::
  "containment \<Rightarrow> roi_poly \<Rightarrow> real ndarray \<Rightarrow> error + (real option \<times> real option)" where
  "get_mean_and_std contains_points self img =
     (case get_mask contains_points self img of
        Inl err \<Rightarrow> Inl err
      | Inr roi_mask \<Rightarrow>
          (let mean = np_mean (np_extract roi_mask img);
               std = np_std (np_extract roi_mask img)
           in Inr (mean, std)))"

definition display_roi :: "roi_poly \<Rightarrow> kwargs \<Rightarrow> world \<Rightarrow> error + world" where
  "display_roi self linekwargs w =
     (case self_x self of
        [] \<Rightarrow> Inl IndexError
      | x0 # _ \<Rightarrow>
          (case self_y self of
             [] \<Rightarrow> Inl IndexError
           | y0 # _ \<Rightarrow>
               (let line = Line2D (self_x self @ [x0]) (self_y self @ [y0]) None
                                  (self_color self) linekwargs
                in Inr (request [Add_line (gca w) line, Plt_draw] w))))"

definition display_mean ::
  "containment \<Rightarrow> roi_poly \<Rightarrow> real ndarray \<Rightarrow> kwargs \<Rightarrow> world \<Rightarrow> error + world" where
  "display_mean contains_points self img textkwargs w =
     (case get_mean_and_std contains_points self img of
        Inl err \<Rightarrow> Inl err
      | Inr (mean, std) \<Rightarrow>
          (case self_x self of
             [] \<Rightarrow> Inl IndexError
           | x0 # _ \<Rightarrow>
               (case self_y self of
                  [] \<Rightarrow> Inl IndexError
                | y0 # _ \<Rightarrow>
                    Inr (request [Plt_text x0 y0 (mean, std) (self_color self) textkwargs] w))))"

section \<open>Deprecated aliases\<close>

definition displayMean ::
  "containment \<Rightarrow> roi_poly \<Rightarrow> real ndarray \<Rightarrow> kwargs \<Rightarrow> world \<Rightarrow> error + world" where
  "displayMean contains_points self img textkwargs w =
     display_mean contains_points self img textkwargs
       (deprecation ''Use 'display_mean' instead of 'displayMean'!'' w)"

definition getMask ::
  "containment \<Rightarrow> roi_poly \<Rightarrow> 'a ndarray \<Rightarrow> world \<Rightarrow> (error + bool ndarray) \<times> world" where
  "getMask contains_points self img w =
     (get_mask contains_points self img,
      deprecation ''Use 'get_mask()' instead of 'getMask'!'' w)"

definition displayROI :: "roi_poly \<Rightarrow> kwargs \<Rightarrow> world \<Rightarrow> error + world" where
  "displayROI self linekwargs w =
     display_roi self linekwargs (deprecation ''Use 'display_roi' instead of 'displayROI'!'' w)"

definition roipoly ::
  "nat option \<Rightarrow> nat option \<Rightarrow> string \<Rightarrow> string option \<Rightarrow> bool \<Rightarrow> bool \<Rightarrow> world \<Rightarrow> roi_poly \<times> world" where
  "roipoly fig ax color roicolor show_fig close_fig w =
     RoiPoly_init fig ax color roicolor show_fig close_fig
       (deprecation ''Import 'RoiPoly' instead of 'roipoly'!'' w)"

section \<open>MultiRoi\<close>

text \<open>
  \<^verbatim>\<open>self.rois\<close> is a Python dict, which keeps insertion order: an association list, in
  which assigning to a key that is present replaces the value in place and assigning to a
  new key appends.
\<close>

record multi_roi =
  color_cycle :: "string list"
  roi_names :: "string list option"
  multi_fig :: nat
  multi_ax :: nat
  rois :: "(string \<times> roi_poly) list"

fun setitem :: "('k \<times> 'v) list \<Rightarrow> 'k \<Rightarrow> 'v \<Rightarrow> ('k \<times> 'v) list" where
  "setitem [] k v = [(k, v)]"
| "setitem ((k1, v1) # d) k v = (if k1 = k then (k, v) # d else (k1, v1) # setitem d k v)"

definition default_color_cycle :: "string list" where
  "default_color_cycle = [''b'', ''g'', ''r'', ''c'', ''m'', ''y'', ''k'']"

text \<open>Python's \<^verbatim>\<open>str\<close> on a non-negative integer: its decimal digits.\<close>

function str :: "nat \<Rightarrow> string" where
  "str n = (if n < 10 then [''0123456789'' ! n] else str (n div 10) @ [''0123456789'' ! (n mod 10)])"
  by pat_completeness auto
termination
  by (relation "measure (\<lambda>n. n)") auto

declare str.simps [simp del]

definition make_buttons :: "world \<Rightarrow> world" where
  "make_buttons w =
     request [Plt_axes, Plt_axes, Make_button ''Finish'', Make_button ''New ROI'', Plt_show True] w"

definition MultiRoi_init ::
  "nat option \<Rightarrow> nat option \<Rightarrow> string list option \<Rightarrow> string list \<Rightarrow> world \<Rightarrow> multi_roi \<times> world" where
  "MultiRoi_init fig ax names cycle w =
     (let fig1 = (case fig of None \<Rightarrow> gcf w | Some f \<Rightarrow> f);
          ax1 = (case ax of None \<Rightarrow> fig_gca w fig1 | Some a \<Rightarrow> a);
          self = \<lparr>color_cycle = cycle, roi_names = names, multi_fig = fig1, multi_ax = ax1,
                  rois = []\<rparr>
      in (self, make_buttons w))"

text \<open>The title \<^verbatim>\<open>"Draw ROI '{}'".format(roi_name)\<close>; the character 0x27 is the quote.\<close>

definition title_of :: "string \<Rightarrow> string" where
  "title_of roi_name = ''Draw ROI '' @ [CHR 0x27] @ roi_name @ [CHR 0x27]"

text \<open>The name chosen at lines 299 to 305, for a dict that holds \<open>count\<close> sessions.\<close>

definition roi_name_at :: "multi_roi \<Rightarrow> nat \<Rightarrow> string" where
  "roi_name_at self count =
     (let idx = count mod length (color_cycle self) in
      case roi_names self of
        None \<Rightarrow> str (count + 1)
      | Some names \<Rightarrow> if idx < length names then names ! idx else str (count + 1))"

definition add :: "multi_roi \<Rightarrow> world \<Rightarrow> error + (multi_roi \<times> world)" where
  "add self w =
     (if rois self \<noteq> [] \<and> \<not> list_all (\<lambda>kr. completed (snd kr)) (rois self) then Inr (self, w)
      else
        (let count = length (rois self) in
         if length (color_cycle self) = 0 then Inl ZeroDivisionError
         else
           (let idx = count mod length (color_cycle self);
                roi_name = roi_name_at self count;
                w1 = request [Set_title (multi_ax self) (title_of roi_name), Plt_draw] w;
                (roi, w2) = RoiPoly_init (Some (multi_fig self)) (Some (multi_ax self))
                              (color_cycle self ! idx) None False False w1
            in Inr (self\<lparr>rois := setitem (rois self) roi_name roi\<rparr>, w2))))"

definition finish :: "multi_roi \<Rightarrow> world \<Rightarrow> world" where
  "finish self w = plt_close (multi_fig self) w"

text \<open>
  What can happen to a \<^verbatim>\<open>MultiRoi\<close>: a click on one of its two buttons, or a mouse event
  on the shared canvas, which reaches every session of the dict through the handlers the
  session has connected.
\<close>

datatype trigger = New_ROI_clicked | Finish_clicked | Mouse mouse

fun deliver_all ::
  "(string \<times> roi_poly) list \<Rightarrow> mouse \<Rightarrow> world \<Rightarrow> error + ((string \<times> roi_poly) list \<times> world)" where
  "deliver_all [] m w = Inr ([], w)"
| "deliver_all ((k, r) # d) m w =
     (case deliver r m w of
        Inl err \<Rightarrow> Inl err
      | Inr (r1, w1) \<Rightarrow>
          (case deliver_all d m w1 of
             Inl err \<Rightarrow> Inl err
           | Inr (d1, w2) \<Rightarrow> Inr ((k, r1) # d1, w2)))"

fun multi_step :: "multi_roi \<Rightarrow> trigger \<Rightarrow> world \<Rightarrow> error + (multi_roi \<times> world)" where
  "multi_step self New_ROI_clicked w = add self w"
| "multi_step self Finish_clicked w = Inr (self, finish self w)"
| "multi_step self (Mouse m) w =
     (case deliver_all (rois self) m w of
        Inl err \<Rightarrow> Inl err
      | Inr (d, w1) \<Rightarrow> Inr (self\<lparr>rois := d\<rparr>, w1))"

fun run_triggers :: "multi_roi \<Rightarrow> trigger list \<Rightarrow> world \<Rightarrow> error + (multi_roi \<times> world)" where
  "run_triggers self [] w = Inr (self, w)"
| "run_triggers self (t # ts) w =
     (case multi_step self t w of
        Inl err \<Rightarrow> Inl err
      | Inr (self1, w1) \<Rightarrow> run_triggers self1 ts w1)"

definition in_progress :: "multi_roi \<Rightarrow> (string \<times> roi_poly) list" where
  "in_progress self = filter (\<lambda>kr. \<not> completed (snd kr)) (rois self)"

section \<open>Well-formed sessions and collections\<close>

text \<open>
  What the handlers keep true between the fields of a session: the two coordinate lists have
  the same length, and while a line exists both anchor points are pairs and at least one
  vertex is recorded. It rules out the \<^verbatim>\<open>IndexError\<close> branches of the handlers.
\<close>

definition consistent :: "roi_poly \<Rightarrow> bool" where
  "consistent self \<longleftrightarrow>
     length (self_x self) = length (self_y self) \<and>
     (self_line self \<noteq> None \<longrightarrow>
        length (previous_point self) = 2 \<and> length (start_point self) = 2 \<and> self_x self \<noteq> [])"

definition multi_inv :: "multi_roi \<Rightarrow> bool" where
  "multi_inv self \<longleftrightarrow>
     list_all (\<lambda>kr. consistent (snd kr)) (rois self) \<and> length (in_progress self) \<le> 1"

section \<open>Concrete sessions used as inputs\<close>

text \<open>
  A process that is not interactive, with one figure 0 holding one axes 0, right after the
  module has been loaded.
\<close>

definition one_axes :: "nat \<Rightarrow> nat" where
  "one_axes f = 0"

definition fresh_world :: world where
  "fresh_world =
     module_load \<lparr>interactive = False, gcf = 0, gca = 0, fig_gca = one_axes, connected = [],
                  next_cid = 0, closed_figs = [], calls = [],
                  deprecation_filter = Once_per_location, emitted = []\<rparr>"

definition primary_click :: "real \<Rightarrow> real \<Rightarrow> mouse" where
  "primary_click a b =
     Button_press \<lparr>inaxes = Some 0, xdata = a, ydata = b, button = Some 1, dblclick = False\<rparr>"

definition secondary_click :: "real \<Rightarrow> real \<Rightarrow> mouse" where
  "secondary_click a b =
     Button_press \<lparr>inaxes = Some 0, xdata = a, ydata = b, button = Some 3, dblclick = False\<rparr>"

text \<open>
  \<open>shared_roi\<close> is a session as \<^verbatim>\<open>MultiRoi.add\<close> builds it (\<^verbatim>\<open>show_fig=False\<close>,
  \<^verbatim>\<open>close_fig=False\<close>); \<open>solo_roi\<close> is built with the defaults of the constructor.
\<close>

definition shared_roi :: roi_poly where
  "shared_roi = fst (RoiPoly_init None None ''b'' None False False fresh_world)"

definition shared_world :: world where
  "shared_world = snd (RoiPoly_init None None ''b'' None False False fresh_world)"

definition solo_roi :: roi_poly where
  "solo_roi = fst (RoiPoly_init None None ''b'' None True True fresh_world)"

definition solo_world :: world where
  "solo_world = snd (RoiPoly_init None None ''b'' None True True fresh_world)"

definition after_events :: "roi_poly \<Rightarrow> mouse list \<Rightarrow> world \<Rightarrow> roi_poly \<times> world" where
  "after_events self ms w = (case run_events self ms w of Inl err \<Rightarrow> (self, w) | Inr sw \<Rightarrow> sw)"

text \<open>The session after the clicks (1, 3) and (2, 4).\<close>

definition segment_roi :: roi_poly where
  "segment_roi = fst (after_events shared_roi [primary_click 1 3, primary_click 2 4] shared_world)"

text \<open>The session after four clicks on the corners of a square and a secondary click.\<close>

definition rectangle_roi :: roi_poly where
  "rectangle_roi =
     fst (after_events shared_roi
            [primary_click 1 1, primary_click 1 3, primary_click 3 3, primary_click 3 1,
             secondary_click 3 1] shared_world)"

text \<open>The default session after one click at (1, 1), and the world it lives in.\<close>

definition drawing_roi :: roi_poly where
  "drawing_roi = fst (after_events solo_roi [primary_click 1 1] solo_world)"

definition drawing_world :: world where
  "drawing_world = snd (after_events solo_roi [primary_click 1 1] solo_world)"

definition three_names :: multi_roi where
  "three_names =
     fst (MultiRoi_init None None (Some [''A'', ''B'', ''C'']) [''b'', ''g''] fresh_world)"

definition three_names_world :: world where
  "three_names_world =
     snd (MultiRoi_init None None (Some [''A'', ''B'', ''C'']) [''b'', ''g''] fresh_world)"

definition two_names :: multi_roi where
  "two_names =
     fst (MultiRoi_init None None (Some [''A'', ''B'']) default_color_cycle fresh_world)"

definition two_names_world :: world where
  "two_names_world =
     snd (MultiRoi_init None None (Some [''A'', ''B'']) default_color_cycle fresh_world)"

text \<open>Two vertices and a secondary click: a session drawn to completion.\<close>

definition draw_segment :: "trigger list" where
  "draw_segment =
     [Mouse (primary_click 1 1), Mouse (primary_click 2 2), Mouse (secondary_click 2 2)]"

text \<open>A 2 by 2 image of value 5, and a containment test that accepts the first column.\<close>

definition uniform_image :: "real ndarray" where
  "uniform_image = \<lparr>shape_ny = 2, shape_nx = 2, flat = [5, 5, 5, 5]\<rparr>"

definition first_column :: containment where
  "first_column pv p = (fst p = 0)"

section \<open>Unfolding rules\<close>

lemmas example_defs = fresh_world_def module_load_def one_axes_def primary_click_def
  secondary_click_def shared_roi_def shared_world_def solo_roi_def solo_world_def
  after_events_def segment_roi_def drawing_roi_def drawing_world_def rectangle_roi_def

lemmas roi_poly_defs = RoiPoly_init_def mpl_connect_def mpl_disconnect_def request_def
  plt_close_def show_figure_def deprecation_def warnings_warn_def Line2D_def set_data_def
  point2_def button_press_callback_def motion_notify_callback_def first_vertex_def
  next_vertex_def close_loop_def auto_close_def closing_gesture_def Let_def

lemmas multi_roi_defs = MultiRoi_init_def make_buttons_def add_def finish_def roi_name_at_def
  three_names_def three_names_world_def two_names_def two_names_world_def draw_segment_def
  default_color_cycle_def

section \<open>The handlers of a session\<close>

lemma RoiPoly_init_consistent:
  "consistent (fst (RoiPoly_init fig ax color roicolor show_fig close_fig w))"
  by (simp add: RoiPoly_init_def consistent_def Let_def split: prod.splits)

lemma RoiPoly_init_not_completed:
  "\<not> completed (fst (RoiPoly_init fig ax color roicolor show_fig close_fig w))"
  by (simp add: RoiPoly_init_def Let_def split: prod.splits)

text \<open>No handler raises on a consistent session, and none resets the flag \<open>completed\<close>.\<close>

lemma motion_notify_callback_total:
  assumes "consistent self"
  shows "\<exists>self1 w1. motion_notify_callback self e w = Inr (self1, w1) \<and> consistent self1
           \<and> self_x self1 = self_x self \<and> self_y self1 = self_y self
           \<and> completed self1 = completed self"
  using assms
  by (auto simp: motion_notify_callback_def consistent_def point2_def split: option.splits)

lemma button_press_callback_total:
  assumes "consistent self"
  shows "\<exists>self1 w1. button_press_callback self e w = Inr (self1, w1) \<and> consistent self1
           \<and> (completed self \<longrightarrow> completed self1)"
  using assms
  by (auto simp: button_press_callback_def first_vertex_def next_vertex_def close_loop_def
        consistent_def point2_def Let_def split: option.splits)

lemma deliver_total:
  assumes "consistent self"
  shows "\<exists>self1 w1. deliver self m w = Inr (self1, w1) \<and> consistent self1
           \<and> (completed self \<longrightarrow> completed self1)"
proof (cases m)
  case (Motion e)
  with motion_notify_callback_total [OF assms, of e w] show ?thesis
    using assms by auto
next
  case (Button_press e)
  with button_press_callback_total [OF assms, of e w] show ?thesis
    using assms by auto
qed

lemma run_events_total:
  "consistent self \<Longrightarrow>
     \<exists>self1 w1. run_events self ms w = Inr (self1, w1) \<and> consistent self1
       \<and> (completed self \<longrightarrow> completed self1)"
proof (induction ms arbitrary: self w)
  case Nil
  then show ?case by simp
next
  case (Cons m ms)
  from deliver_total [OF Cons.prems, of m w] obtain s1 w1
    where d: "deliver self m w = Inr (s1, w1)" "consistent s1" "completed self \<longrightarrow> completed s1"
    by blast
  from Cons.IH [OF d(2), of w1] obtain s2 w2
    where r: "run_events s1 ms w1 = Inr (s2, w2)" "consistent s2" "completed s1 \<longrightarrow> completed s2"
    by blast
  from d r show ?case by simp
qed

text \<open>
  The closing gesture on two or more vertices disconnects both handlers, and a session whose
  handlers are disconnected is not changed by any later mouse event.
\<close>

lemma close_loop_disconnects:
  assumes "close_loop self l w = Inr (self1, w1)" and "length (self_x self) \<noteq> 1"
  shows "completed self1 \<and> self_line self1 = None
         \<and> cid1 self1 \<notin> set (connected w1) \<and> cid2 self1 \<notin> set (connected w1)"
  using assms
  by (auto simp: close_loop_def mpl_disconnect_def request_def Let_def
        split: sum.splits prod.splits)

lemma disconnected_session_frozen:
  "cid1 self \<notin> set (connected w) \<Longrightarrow> cid2 self \<notin> set (connected w) \<Longrightarrow>
     run_events self ms w = Inr (self, w)"
proof (induction ms)
  case Nil
  then show ?case by simp
next
  case (Cons m ms)
  then show ?case by (cases m) simp_all
qed

text \<open>
  One accepted primary click and a closing gesture, on a new session: the session is
  completed and holds the one vertex that was clicked.
\<close>

lemma RoiPoly_init_fresh:
  assumes "RoiPoly_init fig ax color roicolor show_fig close_fig w0 = (self, w)"
  shows "self_line self = None \<and> self_x self = [] \<and> self_y self = [] \<and> \<not> completed self
         \<and> cid1 self \<in> set (connected w) \<and> cid2 self \<in> set (connected w)"
  using assms
  by (auto simp: RoiPoly_init_def mpl_connect_def show_figure_def request_def Let_def
        split: if_splits)

lemma single_click_then_closing_gesture:
  assumes init: "RoiPoly_init fig ax color roicolor show_fig close_fig w0 = (self, w)"
    and e1: "inaxes e1 = Some (self_ax self)" "button e1 = Some 1" "\<not> dblclick e1"
    and e2: "inaxes e2 = Some (self_ax self)" "closing_gesture e2"
  shows "\<exists>self1 w1. run_events self [Button_press e1, Button_press e2] w = Inr (self1, w1)
           \<and> completed self1 \<and> get_roi_coordinates self1 = [(xdata e1, ydata e1)]"
proof -
  let ?l = "Line2D [xdata e1, xdata e1] [ydata e1, ydata e1] (Some ''o'') (self_color self) []"
  let ?s1 = "self\<lparr>self_line := Some ?l, start_point := [xdata e1, ydata e1],
                  previous_point := [xdata e1, ydata e1],
                  self_x := [xdata e1], self_y := [ydata e1]\<rparr>"
  let ?w1 = "request [Add_line (self_ax self) ?l, Canvas_draw (self_fig self)] w"
  note fresh = RoiPoly_init_fresh [OF init]
  have first: "deliver self (Button_press e1) w = Inr (?s1, ?w1)"
    using fresh e1 by (simp add: button_press_callback_def first_vertex_def Let_def)
  have not_single: "(button e2 = Some (Suc 0) \<and> \<not> dblclick e2) = False"
    using e2(2) by (auto simp: closing_gesture_def)
  have conn: "cid2 ?s1 \<in> set (connected ?w1)"
    using fresh by (simp add: request_def)
  have second: "deliver ?s1 (Button_press e2) ?w1 =
                  Inr (?s1\<lparr>completed := True\<rparr>, auto_close (?s1\<lparr>completed := True\<rparr>) ?w1)"
    using conn e2 by (simp add: button_press_callback_def close_loop_def not_single)
  show ?thesis
    by (simp add: first second get_roi_coordinates_def del: deliver.simps)
qed

text \<open>
  C1 (the code departs from the claim). Once \<open>completed\<close> is true the vertex lists should
  never change again and the handlers should no longer fire. The branch for a single-point
  ROI sets the flag but, unlike the branch for two or more vertices, neither disconnects the
  handlers nor drops the line: on a session as \<^verbatim>\<open>MultiRoi\<close> builds it, a click at (1, 1) and
  a secondary click complete the session with the one vertex (1, 1) and both handlers still
  connected, and the next primary click at (2, 2) appends a second vertex to the completed
  polygon.
\<close>

theorem completed_single_point_roi_is_still_mutated:
  "\<exists>s1 w1 s2 w2.
     run_events shared_roi [primary_click 1 1, secondary_click 1 1] shared_world = Inr (s1, w1)
     \<and> completed s1 \<and> get_roi_coordinates s1 = [(1, 1)]
     \<and> cid1 s1 \<in> set (connected w1) \<and> cid2 s1 \<in> set (connected w1)
     \<and> deliver s1 (primary_click 2 2) w1 = Inr (s2, w2)
     \<and> completed s2 \<and> get_roi_coordinates s2 = [(1, 1), (2, 2)]"
  by (simp add: example_defs roi_poly_defs get_roi_coordinates_def)

text \<open>
  C8. On a closing gesture (inside the axes, on a session that has a line, with the figure
  still open) the handler returns, and afterwards the figure is closed if and only if the
  process is not interactive and the session's \<^verbatim>\<open>close_figure\<close> flag is set.
\<close>

theorem figure_closed_iff_not_interactive_and_close_figure:
  assumes "inaxes e = Some (self_ax self)" and "closing_gesture e"
    and "self_line self \<noteq> None" and "consistent self"
    and "self_fig self \<notin> set (closed_figs w)"
  shows "\<exists>self1 w1. button_press_callback self e w = Inr (self1, w1)
           \<and> (self_fig self \<in> set (closed_figs w1) \<longleftrightarrow> \<not> interactive w \<and> close_figure self)"
  using assms
  by (auto simp: button_press_callback_def close_loop_def closing_gesture_def consistent_def
        auto_close_def plt_close_def request_def mpl_disconnect_def point2_def Let_def)

theorem figure_closed_iff_not_interactive_and_close_figure_witness:
  "inaxes \<lparr>inaxes = Some 0, xdata = 1, ydata = 1, button = Some 3, dblclick = False\<rparr>
     = Some (self_ax drawing_roi)
   \<and> closing_gesture \<lparr>inaxes = Some 0, xdata = 1, ydata = 1, button = Some 3, dblclick = False\<rparr>
   \<and> self_line drawing_roi \<noteq> None \<and> consistent drawing_roi
   \<and> self_fig drawing_roi \<notin> set (closed_figs drawing_world)
   \<and> \<not> interactive drawing_world \<and> close_figure drawing_roi
   \<and> (\<exists>self1 w1.
         button_press_callback drawing_roi
           \<lparr>inaxes = Some 0, xdata = 1, ydata = 1, button = Some 3, dblclick = False\<rparr>
           drawing_world = Inr (self1, w1)
         \<and> self_fig drawing_roi \<in> set (closed_figs w1))"
proof -
  let ?e = "\<lparr>inaxes = Some 0, xdata = 1, ydata = 1, button = Some 3, dblclick = False\<rparr>"
  have h: "inaxes ?e = Some (self_ax drawing_roi)" "closing_gesture ?e"
    "self_line drawing_roi \<noteq> None" "consistent drawing_roi"
    "self_fig drawing_roi \<notin> set (closed_figs drawing_world)"
    and flags: "\<not> interactive drawing_world" "close_figure drawing_roi"
    by (simp_all add: example_defs roi_poly_defs consistent_def)
  from figure_closed_iff_not_interactive_and_close_figure [OF h] flags h
  show ?thesis by blast
qed

text \<open>
  C10. With the deprecated argument \<^verbatim>\<open>roicolor\<close> given, the constructor returns a session
  (the warning is not fatal) whose colour is \<^verbatim>\<open>roicolor\<close>, whatever \<^verbatim>\<open>color\<close> was, and
  one deprecation warning is emitted, under the filter that loading the module installs.
\<close>

theorem roicolor_overrides_color:
  assumes "deprecation_filter w = Always"
  shows "self_color (fst (RoiPoly_init fig ax color (Some rc) show_fig close_fig w)) = rc
         \<and> emitted (snd (RoiPoly_init fig ax color (Some rc) show_fig close_fig w)) =
             emitted w @ [''Use 'color' instead of 'roicolor'!'']"
  using assms by (simp add: roi_poly_defs split: prod.splits)

theorem roicolor_overrides_color_witness:
  "deprecation_filter fresh_world = Always
   \<and> self_color (fst (RoiPoly_init None None ''b'' (Some ''r'') False True fresh_world)) = ''r''
   \<and> emitted (snd (RoiPoly_init None None ''b'' (Some ''r'') False True fresh_world)) =
       [''Use 'color' instead of 'roicolor'!'']"
proof -
  have h: "deprecation_filter fresh_world = Always"
    by (simp add: fresh_world_def module_load_def)
  from roicolor_overrides_color [OF h, of None None "''b''" "''r''" False True] h
  show ?thesis by (simp add: fresh_world_def module_load_def)
qed

section \<open>The vertex list handed to the containment test\<close>

text \<open>
  C4 as the claim states it: the list is the first vertex followed by the reverse of the
  remaining vertices, no vertex twice. It fails on the session with the vertices (1, 3) and
  (2, 4): the list is (1, 3), (2, 4), (1, 3).
\<close>

theorem poly_verts_repeats_first_vertex:
  "poly_verts segment_roi = Inr [(1, 3), (2, 4), (1, 3)]
   \<and> poly_verts segment_roi \<noteq>
       Inr ([hd (get_roi_coordinates segment_roi)] @ rev (tl (get_roi_coordinates segment_roi)))"
  by (simp add: poly_verts_def example_defs roi_poly_defs get_roi_coordinates_def)

text \<open>
  C4, amended. For a session with at least one vertex (and coordinate lists of one length),
  the list is the first vertex followed by the reverse of the whole vertex list: the first
  vertex, the remaining vertices in reverse order, and the first vertex again, which closes
  the path.
\<close>

theorem poly_verts_closed:
  assumes "self_x self \<noteq> []" and "length (self_x self) = length (self_y self)"
  shows "poly_verts self =
           Inr ([hd (get_roi_coordinates self)] @ rev (tl (get_roi_coordinates self))
                @ [hd (get_roi_coordinates self)])"
proof -
  from assms obtain x0 xs y0 ys where xy: "self_x self = x0 # xs" "self_y self = y0 # ys"
    and len: "length xs = length ys"
    by (cases "self_x self"; cases "self_y self") auto
  have "zip (rev (x0 # xs)) (rev (y0 # ys)) = rev (zip xs ys) @ [(x0, y0)]"
    using len by (simp add: zip_rev)
  then show ?thesis
    using xy len by (auto simp: poly_verts_def get_roi_coordinates_def)
qed

theorem poly_verts_closed_witness:
  "self_x segment_roi \<noteq> [] \<and> length (self_x segment_roi) = length (self_y segment_roi)
   \<and> poly_verts segment_roi = Inr [(1, 3), (2, 4), (1, 3)]"
proof -
  have h: "self_x segment_roi \<noteq> []" "length (self_x segment_roi) = length (self_y segment_roi)"
    and c: "get_roi_coordinates segment_roi = [(1, 3), (2, 4)]"
    by (simp_all add: example_defs roi_poly_defs get_roi_coordinates_def)
  from poly_verts_closed [OF h] h c show ?thesis by simp
qed

section \<open>Properties of the deprecated aliases\<close>

text \<open>
  C9 as the claim states it: an alias warns at most once. It fails: the module installs the
  action \<^verbatim>\<open>'always'\<close>, and two calls of \<^verbatim>\<open>roipoly\<close> emit the warning twice.
\<close>

theorem alias_warns_on_every_call:
  "emitted (snd (roipoly None None ''b'' None False False
             (snd (roipoly None None ''b'' None False False fresh_world)))) =
     [''Import 'RoiPoly' instead of 'roipoly'!'', ''Import 'RoiPoly' instead of 'roipoly'!'']
   \<and> \<not> length (emitted (snd (roipoly None None ''b'' None False False
             (snd (roipoly None None ''b'' None False False fresh_world))))) \<le> 1"
  by (simp add: roipoly_def example_defs roi_poly_defs split: prod.splits)

text \<open>
  C9, amended. Under the filter that loading the module installs, every call of an alias
  emits its warning once more and then is the current operation, run with the same
  arguments: the mask, the rendering requests and the session are those of the current
  operation.
\<close>

theorem aliases_forward_and_warn:
  assumes "deprecation_filter w = Always"
  shows "getMask cp self img w =
           (get_mask cp self img,
            w\<lparr>emitted := emitted w @ [''Use 'get_mask()' instead of 'getMask'!'']\<rparr>)
       \<and> displayROI self kw w =
           display_roi self kw
             (w\<lparr>emitted := emitted w @ [''Use 'display_roi' instead of 'displayROI'!'']\<rparr>)
       \<and> map_sum id calls (displayROI self kw w) = map_sum id calls (display_roi self kw w)
       \<and> displayMean cp self rimg kw w =
           display_mean cp self rimg kw
             (w\<lparr>emitted := emitted w @ [''Use 'display_mean' instead of 'displayMean'!'']\<rparr>)
       \<and> map_sum id calls (displayMean cp self rimg kw w) =
           map_sum id calls (display_mean cp self rimg kw w)
       \<and> roipoly fig ax c rc sf cf w =
           RoiPoly_init fig ax c rc sf cf
             (w\<lparr>emitted := emitted w @ [''Import 'RoiPoly' instead of 'roipoly'!'']\<rparr>)
       \<and> fst (roipoly fig ax c rc sf cf w) = fst (RoiPoly_init fig ax c rc sf cf w)"
proof -
  have 1: "getMask cp self img w =
           (get_mask cp self img,
            w\<lparr>emitted := emitted w @ [''Use 'get_mask()' instead of 'getMask'!'']\<rparr>)"
    using assms by (simp add: getMask_def deprecation_def warnings_warn_def)
  have 2: "displayROI self kw w =
           display_roi self kw
             (w\<lparr>emitted := emitted w @ [''Use 'display_roi' instead of 'displayROI'!'']\<rparr>)"
    using assms by (simp add: displayROI_def deprecation_def warnings_warn_def)
  have 3: "map_sum id calls (displayROI self kw w) = map_sum id calls (display_roi self kw w)"
    unfolding 2 by (simp add: display_roi_def request_def Let_def split: list.splits)
  have 4: "displayMean cp self rimg kw w =
           display_mean cp self rimg kw
             (w\<lparr>emitted := emitted w @ [''Use 'display_mean' instead of 'displayMean'!'']\<rparr>)"
    using assms by (simp add: displayMean_def deprecation_def warnings_warn_def)
  have 5: "map_sum id calls (displayMean cp self rimg kw w) =
           map_sum id calls (display_mean cp self rimg kw w)"
    unfolding 4
    by (simp add: display_mean_def request_def split: list.splits sum.splits prod.splits)
  have 6: "roipoly fig ax c rc sf cf w =
           RoiPoly_init fig ax c rc sf cf
             (w\<lparr>emitted := emitted w @ [''Import 'RoiPoly' instead of 'roipoly'!'']\<rparr>)"
    using assms by (simp add: roipoly_def deprecation_def warnings_warn_def)
  have 7: "fst (roipoly fig ax c rc sf cf w) = fst (RoiPoly_init fig ax c rc sf cf w)"
    unfolding 6 using assms
    by (simp add: RoiPoly_init_def mpl_connect_def deprecation_def warnings_warn_def Let_def
          split: option.splits prod.splits)
  from 1 2 3 4 5 6 7 show ?thesis by blast
qed

theorem aliases_forward_and_warn_witness:
  "deprecation_filter fresh_world = Always
   \<and> fst (roipoly None None ''b'' None False False fresh_world) = shared_roi
   \<and> emitted (snd (roipoly None None ''b'' None False False fresh_world)) =
       [''Import 'RoiPoly' instead of 'roipoly'!'']"
proof -
  have h: "deprecation_filter fresh_world = Always"
    by (simp add: fresh_world_def module_load_def)
  have "roipoly None None ''b'' None False False fresh_world =
          RoiPoly_init None None ''b'' None False False
            (fresh_world\<lparr>emitted :=
               emitted fresh_world @ [''Import 'RoiPoly' instead of 'roipoly'!'']\<rparr>)"
    and "fst (roipoly None None ''b'' None False False fresh_world) =
          fst (RoiPoly_init None None ''b'' None False False fresh_world)"
    using aliases_forward_and_warn [OF h] by blast+
  then show ?thesis
    using h by (simp add: example_defs roi_poly_defs split: prod.splits)
qed

section \<open>The collection of sessions\<close>

lemma in_progress_empty_iff:
  "in_progress self = [] \<longleftrightarrow> list_all (\<lambda>kr. completed (snd kr)) (rois self)"
  by (auto simp: in_progress_def filter_empty_conv list_all_iff)

text \<open>
  A mouse event reaches every session of the dict; none of them raises, and the number of
  sessions that are not completed does not grow.
\<close>

lemma deliver_all_total:
  "list_all (\<lambda>kr. consistent (snd kr)) d \<Longrightarrow>
     \<exists>d1 w1. deliver_all d m w = Inr (d1, w1)
       \<and> list_all (\<lambda>kr. consistent (snd kr)) d1
       \<and> length (filter (\<lambda>kr. \<not> completed (snd kr)) d1)
           \<le> length (filter (\<lambda>kr. \<not> completed (snd kr)) d)"
proof (induction d arbitrary: w)
  case Nil
  then show ?case by simp
next
  case (Cons kr d)
  obtain k r where kr: "kr = (k, r)" by (cases kr)
  with Cons.prems have c: "consistent r" and cd: "list_all (\<lambda>kr. consistent (snd kr)) d"
    by simp_all
  from deliver_total [OF c, of m w] obtain r1 w1
    where d: "deliver r m w = Inr (r1, w1)" "consistent r1" "completed r \<longrightarrow> completed r1"
    by blast
  from Cons.IH [OF cd, of w1] obtain d1 w2
    where r: "deliver_all d m w1 = Inr (d1, w2)" "list_all (\<lambda>kr. consistent (snd kr)) d1"
      "length (filter (\<lambda>kr. \<not> completed (snd kr)) d1)
         \<le> length (filter (\<lambda>kr. \<not> completed (snd kr)) d)"
    by blast
  from d r kr show ?case by auto
qed

lemma filter_setitem_new:
  "list_all (\<lambda>kr. completed (snd kr)) d \<Longrightarrow> \<not> completed v \<Longrightarrow>
     filter (\<lambda>kr. \<not> completed (snd kr)) (setitem d k v) = [(k, v)]"
  by (induction d k v rule: setitem.induct) (auto simp: filter_empty_conv list_all_iff)

lemma list_all_setitem:
  "list_all P d \<Longrightarrow> P (k, v) \<Longrightarrow> list_all P (setitem d k v)"
  by (induction d k v rule: setitem.induct) auto

lemma add_ignored:
  "in_progress self \<noteq> [] \<Longrightarrow> add self w = Inr (self, w)"
  by (auto simp: add_def in_progress_empty_iff)

lemma add_accepted:
  assumes "in_progress self = []" and "color_cycle self \<noteq> []"
  shows "\<exists>self1 w1 r. add self w = Inr (self1, w1) \<and> \<not> completed r \<and> consistent r
           \<and> rois self1 = setitem (rois self) (roi_name_at self (length (rois self))) r
           \<and> color_cycle self1 = color_cycle self"
proof -
  let ?name = "roi_name_at self (length (rois self))"
  let ?new = "RoiPoly_init (Some (multi_fig self)) (Some (multi_ax self))
                (color_cycle self ! (length (rois self) mod length (color_cycle self)))
                None False False
                (request [Set_title (multi_ax self) (title_of ?name), Plt_draw] w)"
  have "add self w = Inr (self\<lparr>rois := setitem (rois self) ?name (fst ?new)\<rparr>, snd ?new)"
    using assms by (auto simp: add_def in_progress_empty_iff Let_def split: prod.splits)
  moreover have "\<not> completed (fst ?new)"
    by (simp add: RoiPoly_init_not_completed)
  moreover have "consistent (fst ?new)"
    by (rule RoiPoly_init_consistent)
  ultimately show ?thesis by auto
qed

lemma multi_step_inv:
  assumes "multi_inv self" and "color_cycle self \<noteq> []"
  shows "\<exists>self1 w1. multi_step self t w = Inr (self1, w1) \<and> multi_inv self1
           \<and> color_cycle self1 = color_cycle self"
proof (cases t)
  case New_ROI_clicked
  show ?thesis
  proof (cases "in_progress self = []")
    case True
    from add_accepted [OF True assms(2), of w] obtain self1 w1 r
      where a: "add self w = Inr (self1, w1)" "\<not> completed r" "consistent r"
        "rois self1 = setitem (rois self) (roi_name_at self (length (rois self))) r"
        "color_cycle self1 = color_cycle self"
      by blast
    from True have all: "list_all (\<lambda>kr. completed (snd kr)) (rois self)"
      by (simp add: in_progress_empty_iff)
    have "in_progress self1 = [(roi_name_at self (length (rois self)), r)]"
      using filter_setitem_new [OF all a(2)] a(4) by (simp add: in_progress_def)
    moreover have "list_all (\<lambda>kr. consistent (snd kr)) (rois self1)"
      using assms(1) a(3,4) by (simp add: multi_inv_def list_all_setitem)
    ultimately have "multi_inv self1" by (simp add: multi_inv_def)
    with a New_ROI_clicked show ?thesis by simp
  next
    case False
    with assms New_ROI_clicked show ?thesis by (simp add: add_ignored)
  qed
next
  case Finish_clicked
  with assms show ?thesis by (simp add: multi_inv_def in_progress_def)
next
  case (Mouse m)
  from assms(1) have "list_all (\<lambda>kr. consistent (snd kr)) (rois self)"
    by (simp add: multi_inv_def)
  from deliver_all_total [OF this, of m w] obtain d1 w1
    where d: "deliver_all (rois self) m w = Inr (d1, w1)"
      "list_all (\<lambda>kr. consistent (snd kr)) d1"
      "length (filter (\<lambda>kr. \<not> completed (snd kr)) d1)
         \<le> length (filter (\<lambda>kr. \<not> completed (snd kr)) (rois self))"
    by blast
  with assms(1) have "multi_inv (self\<lparr>rois := d1\<rparr>)"
    by (simp add: multi_inv_def in_progress_def)
  with d Mouse show ?thesis by simp
qed

lemma run_triggers_inv:
  "multi_inv self \<Longrightarrow> color_cycle self \<noteq> [] \<Longrightarrow>
     \<exists>self1 w1. run_triggers self ts w = Inr (self1, w1) \<and> multi_inv self1
       \<and> color_cycle self1 = color_cycle self"
proof (induction ts arbitrary: self w)
  case Nil
  then show ?case by simp
next
  case (Cons t ts)
  from multi_step_inv [OF Cons.prems, of t w] obtain s1 w1
    where s: "multi_step self t w = Inr (s1, w1)" "multi_inv s1" "color_cycle s1 = color_cycle self"
    by blast
  with Cons.prems have ne: "color_cycle s1 \<noteq> []" by simp
  from Cons.IH [OF s(2) ne, of w1] obtain s2 w2
    where r: "run_triggers s1 ts w1 = Inr (s2, w2)" "multi_inv s2" "color_cycle s2 = color_cycle s1"
    by blast
  from s r show ?case by simp
qed

text \<open>
  C2. Start from a new \<^verbatim>\<open>MultiRoi\<close> with a non-empty colour cycle and let any sequence of
  button clicks and mouse events happen. The run raises nothing, and in the state it
  reaches at most one session is in progress; while one is in progress, the add trigger
  changes nothing; and when none is in progress, the add trigger creates one session, which
  is then the only one in progress, and a second add trigger right after it changes nothing.
\<close>

theorem at_most_one_roi_in_progress:
  assumes "cycle \<noteq> []"
  shows "\<exists>m w. run_triggers (fst (MultiRoi_init fig ax names cycle w0)) ts
                  (snd (MultiRoi_init fig ax names cycle w0)) = Inr (m, w)
           \<and> length (in_progress m) \<le> 1
           \<and> (in_progress m \<noteq> [] \<longrightarrow> add m w = Inr (m, w))
           \<and> (in_progress m = [] \<longrightarrow>
                (\<exists>m1 w1 r. add m w = Inr (m1, w1)
                   \<and> rois m1 = setitem (rois m) (roi_name_at m (length (rois m))) r
                   \<and> in_progress m1 = [(roi_name_at m (length (rois m)), r)]
                   \<and> add m1 w1 = Inr (m1, w1)))"
proof -
  let ?m0 = "fst (MultiRoi_init fig ax names cycle w0)"
  have inv0: "multi_inv ?m0" and cyc0: "color_cycle ?m0 = cycle"
    by (simp_all add: MultiRoi_init_def multi_inv_def in_progress_def Let_def)
  with assms have ne0: "color_cycle ?m0 \<noteq> []" by simp
  from run_triggers_inv [OF inv0 ne0, of ts "snd (MultiRoi_init fig ax names cycle w0)"]
  obtain m w where run: "run_triggers ?m0 ts (snd (MultiRoi_init fig ax names cycle w0)) = Inr (m, w)"
    and inv: "multi_inv m" and cyc: "color_cycle m = color_cycle ?m0"
    by blast
  from cyc ne0 have ne: "color_cycle m \<noteq> []" by simp
  have "in_progress m = [] \<longrightarrow>
          (\<exists>m1 w1 r. add m w = Inr (m1, w1)
             \<and> rois m1 = setitem (rois m) (roi_name_at m (length (rois m))) r
             \<and> in_progress m1 = [(roi_name_at m (length (rois m)), r)]
             \<and> add m1 w1 = Inr (m1, w1))"
  proof
    assume e: "in_progress m = []"
    from add_accepted [OF e ne, of w] obtain m1 w1 r
      where a: "add m w = Inr (m1, w1)" "\<not> completed r"
        "rois m1 = setitem (rois m) (roi_name_at m (length (rois m))) r"
      by blast
    from e have "list_all (\<lambda>kr. completed (snd kr)) (rois m)"
      by (simp add: in_progress_empty_iff)
    from filter_setitem_new [OF this a(2)] a(3)
    have ip: "in_progress m1 = [(roi_name_at m (length (rois m)), r)]"
      by (simp add: in_progress_def)
    then have "add m1 w1 = Inr (m1, w1)" by (simp add: add_ignored)
    with a ip show "\<exists>m1 w1 r. add m w = Inr (m1, w1)
             \<and> rois m1 = setitem (rois m) (roi_name_at m (length (rois m))) r
             \<and> in_progress m1 = [(roi_name_at m (length (rois m)), r)]
             \<and> add m1 w1 = Inr (m1, w1)" by blast
  qed
  with run inv show ?thesis
    by (auto simp: multi_inv_def add_ignored)
qed

theorem at_most_one_roi_in_progress_witness:
  "default_color_cycle \<noteq> []
   \<and> (\<exists>m w. run_triggers two_names [New_ROI_clicked, New_ROI_clicked] two_names_world = Inr (m, w)
          \<and> map fst (rois m) = [''A''] \<and> in_progress m \<noteq> [] \<and> add m w = Inr (m, w))
   \<and> in_progress two_names = []
   \<and> (\<exists>m1 w1. add two_names two_names_world = Inr (m1, w1)
          \<and> length (rois m1) = 1 \<and> add m1 w1 = Inr (m1, w1))"
proof -
  have h: "default_color_cycle \<noteq> []"
    by (simp add: default_color_cycle_def)
  from at_most_one_roi_in_progress [OF h, of None None "Some [''A'', ''B'']" fresh_world
      "[New_ROI_clicked, New_ROI_clicked]"]
  obtain m w where run: "run_triggers two_names [New_ROI_clicked, New_ROI_clicked] two_names_world = Inr (m, w)"
    and ign: "in_progress m \<noteq> [] \<longrightarrow> add m w = Inr (m, w)"
    unfolding two_names_def two_names_world_def by blast
  from run have keys: "map fst (rois m) = [''A'']" and ip: "in_progress m \<noteq> []"
    by (auto simp: multi_roi_defs example_defs roi_poly_defs in_progress_def)
  have e: "in_progress two_names = []"
    by (simp add: multi_roi_defs in_progress_def Let_def)
  note at_most_one_roi_in_progress [OF h, of None None "Some [''A'', ''B'']" fresh_world "[]",
      folded two_names_def two_names_world_def]
  then have "in_progress two_names = [] \<longrightarrow>
      (\<exists>m1 w1 r. add two_names two_names_world = Inr (m1, w1)
         \<and> rois m1 = setitem (rois two_names) (roi_name_at two_names (length (rois two_names))) r
         \<and> in_progress m1 = [(roi_name_at two_names (length (rois two_names)), r)]
         \<and> add m1 w1 = Inr (m1, w1))"
    by simp
  with e obtain m1 w1 r where a: "add two_names two_names_world = Inr (m1, w1)"
    "rois m1 = setitem (rois two_names) (roi_name_at two_names (length (rois two_names))) r"
    "add m1 w1 = Inr (m1, w1)"
    by blast
  have "rois two_names = []"
    by (simp add: multi_roi_defs Let_def)
  with a(2) have len: "length (rois m1) = 1" by simp
  from ip ign have "add m w = Inr (m, w)" by simp
  with run keys ip
  have p1: "\<exists>m w. run_triggers two_names [New_ROI_clicked, New_ROI_clicked] two_names_world = Inr (m, w)
          \<and> map fst (rois m) = [''A''] \<and> in_progress m \<noteq> [] \<and> add m w = Inr (m, w)"
    by (intro exI conjI)
  from a(1) len a(3)
  have p2: "\<exists>m1 w1. add two_names two_names_world = Inr (m1, w1)
          \<and> length (rois m1) = 1 \<and> add m1 w1 = Inr (m1, w1)"
    by (intro exI conjI)
  from h p1 e p2 show ?thesis by (intro conjI)
qed

text \<open>
  The name of a new session, for a count below the length of the colour cycle: the entry of
  the name list at that position, or the decimal count plus one when the list is shorter.
  At a count equal to the length of the cycle the index starts again at the first name.
\<close>

lemma roi_name_at_below_palette:
  assumes "count < length (color_cycle self)"
  shows "roi_name_at self count =
           (case roi_names self of
              None \<Rightarrow> str (count + 1)
            | Some names \<Rightarrow> if count < length names then names ! count else str (count + 1))"
  using assms by (simp add: roi_name_at_def)

lemma roi_name_at_wraps:
  assumes "color_cycle self \<noteq> []" and "roi_names self = Some names" and "names \<noteq> []"
  shows "roi_name_at self (length (color_cycle self)) = names ! 0"
  using assms by (simp add: roi_name_at_def)

lemma two_names_three_additions:
  "\<exists>m w. run_triggers two_names
      ([New_ROI_clicked] @ draw_segment @ [New_ROI_clicked] @ draw_segment @ [New_ROI_clicked])
      two_names_world = Inr (m, w)
    \<and> map fst (rois m) = [''A'', ''B'', ''3'']"
  by (simp add: multi_roi_defs example_defs roi_poly_defs str.simps)

text \<open>
  C3 (the code departs from the claim). The name of the k-th accepted addition should be
  the k-th entry of the name list, for every k. The code indexes the name list with the
  colour index, the count modulo the length of the colour cycle. With the names A, B, C and
  a cycle of two colours, the third addition is named A again: the dict then holds the keys
  A and B only, and the first session, with its two vertices, has been replaced by the new
  empty one.
\<close>

theorem third_roi_takes_first_name_again:
  "\<exists>m w. run_triggers three_names
      ([New_ROI_clicked] @ draw_segment @ [New_ROI_clicked] @ draw_segment @ [New_ROI_clicked])
      three_names_world = Inr (m, w)
    \<and> map fst (rois m) = [''A'', ''B'']
    \<and> map (\<lambda>kr. get_roi_coordinates (snd kr)) (rois m) = [[], [(1, 1), (2, 2)]]"
  by (simp add: multi_roi_defs example_defs roi_poly_defs get_roi_coordinates_def)

section \<open>Properties of the mask and of the statistics\<close>

text \<open>
  The mask has the shape of the image, and its entry in row \<open>r\<close> and column \<open>c\<close> is the
  answer of the containment test for the point \<open>(c, r)\<close> against the vertex list.
\<close>

lemma length_grid_points: "length (grid_points ny nx) = ny * nx"
  by (induction ny) (simp_all add: grid_points_def)

lemma grid_points_nth:
  "r < ny \<Longrightarrow> c < nx \<Longrightarrow> grid_points ny nx ! (r * nx + c) = (real c, real r)"
proof (induction ny)
  case 0
  then show ?case by simp
next
  case (Suc ny)
  have split: "grid_points (Suc ny) nx = grid_points ny nx @ map (\<lambda>c. (real c, real ny)) [0..<nx]"
    by (simp add: grid_points_def)
  show ?case
  proof (cases "r < ny")
    case True
    then have "Suc r \<le> ny" by simp
    then have "Suc r * nx \<le> ny * nx" by (rule mult_le_mono1)
    with Suc.prems have "r * nx + c < ny * nx" by simp
    with True Suc show ?thesis
      by (simp add: split nth_append length_grid_points)
  next
    case False
    with Suc.prems have "r = ny" by simp
    with Suc.prems show ?thesis
      by (simp add: split nth_append length_grid_points)
  qed
qed

lemma get_mask_result:
  assumes "poly_verts self = Inr pv"
  shows "get_mask cp self img =
           Inr \<lparr>shape_ny = shape_ny img, shape_nx = shape_nx img,
                flat = map (cp pv) (grid_points (shape_ny img) (shape_nx img))\<rparr>"
  using assms by (simp add: get_mask_def Let_def)

lemma get_mask_returns:
  assumes "self_x self \<noteq> []" and "self_y self \<noteq> []"
  shows "\<exists>msk. get_mask cp self img = Inr msk
           \<and> shape_ny msk = shape_ny img \<and> shape_nx msk = shape_nx img
           \<and> length (flat msk) = shape_ny img * shape_nx img"
  using assms
  by (auto simp: get_mask_def poly_verts_def Let_def length_grid_points split: list.splits)

lemma get_mask_at:
  assumes "get_mask cp self img = Inr msk" and "r < shape_ny img" and "c < shape_nx img"
  shows "\<exists>pv. poly_verts self = Inr pv
           \<and> flat msk ! (r * shape_nx img + c) = cp pv (real c, real r)"
proof -
  from assms(1) obtain pv where pv: "poly_verts self = Inr pv"
    by (cases "poly_verts self") (simp_all add: get_mask_def Let_def)
  have "r * shape_nx img + c < shape_ny img * shape_nx img"
  proof -
    from assms(2) have "Suc r * shape_nx img \<le> shape_ny img * shape_nx img"
      by (intro mult_le_mono1) simp
    with assms(3) show ?thesis by simp
  qed
  with assms pv show ?thesis
    using get_mask_result [OF pv, of cp img]
    by (auto simp: length_grid_points grid_points_nth)
qed

text \<open>
  What the module hands to the containment test for a square drawn corner by corner, and
  for a single-point ROI: the closed list of the corners, and the one vertex twice. Which
  points of the grid the test then accepts is matplotlib's answer.
\<close>

lemma rectangle_roi_mask:
  "completed rectangle_roi
   \<and> get_roi_coordinates rectangle_roi = [(1, 1), (1, 3), (3, 3), (3, 1)]
   \<and> get_mask cp rectangle_roi img =
       Inr \<lparr>shape_ny = shape_ny img, shape_nx = shape_nx img,
            flat = map (cp [(1, 1), (3, 1), (3, 3), (1, 3), (1, 1)])
                     (grid_points (shape_ny img) (shape_nx img))\<rparr>"
proof -
  have s: "completed rectangle_roi" "self_x rectangle_roi = [1, 1, 3, 3]"
    "self_y rectangle_roi = [1, 3, 3, 1]"
    by (simp_all add: example_defs roi_poly_defs)
  then have "poly_verts rectangle_roi = Inr [(1, 1), (3, 1), (3, 3), (1, 3), (1, 1)]"
    by (simp add: poly_verts_def)
  from get_mask_result [OF this] s show ?thesis
    by (simp add: get_roi_coordinates_def)
qed

lemma single_point_roi_mask:
  assumes "get_roi_coordinates self = [(a, b)]" and "length (self_x self) = length (self_y self)"
  shows "get_mask cp self img =
           Inr \<lparr>shape_ny = shape_ny img, shape_nx = shape_nx img,
                flat = map (cp [(a, b), (a, b)]) (grid_points (shape_ny img) (shape_nx img))\<rparr>"
proof -
  from assms obtain x0 xs y0 ys where xy: "self_x self = x0 # xs" "self_y self = y0 # ys"
    by (cases "self_x self"; cases "self_y self") (auto simp: get_roi_coordinates_def)
  with assms have "self_x self = [a]" and "self_y self = [b]"
    by (auto simp: get_roi_coordinates_def)
  then have "poly_verts self = Inr [(a, b), (a, b)]"
    by (simp add: poly_verts_def)
  then show ?thesis by (rule get_mask_result)
qed

text \<open>
  \<^verbatim>\<open>np.extract\<close> returns the elements of the image at the flat positions where the mask
  is true; the mean and the standard deviation of a constant list are the constant and 0.
\<close>

lemma np_extract_nths_aux:
  "map snd (filter fst (zip bs xs)) = nths xs {i. i < length bs \<and> bs ! i}"
proof (induction bs arbitrary: xs)
  case Nil
  then show ?case by simp
next
  case (Cons b bs)
  show ?case
  proof (cases xs)
    case Nil
    then show ?thesis by simp
  next
    case (Cons x xs')
    have "{j. Suc j \<in> {i. i < length (b # bs) \<and> (b # bs) ! i}} = {i. i < length bs \<and> bs ! i}"
      by auto
    with Cons Cons.IH [of xs'] show ?thesis
      by (simp add: nths_Cons)
  qed
qed

lemma np_extract_nths:
  "np_extract msk img = nths (flat img) {i. i < length (flat msk) \<and> flat msk ! i}"
  by (simp add: np_extract_def np_extract_nths_aux)

lemma sum_list_constant:
  "\<forall>v\<in>set vals. v = (c::real) \<Longrightarrow> sum_list vals = c * real (length vals)"
  by (induction vals) (auto simp: algebra_simps)

lemma np_mean_constant:
  assumes "vals \<noteq> []" and "\<forall>v\<in>set vals. v = c"
  shows "np_mean vals = Some c"
  using assms by (simp add: np_mean_def sum_list_constant)

lemma np_std_constant:
  assumes "vals \<noteq> []" and "\<forall>v\<in>set vals. v = c"
  shows "np_std vals = Some 0"
proof -
  have "\<forall>d\<in>set (map (\<lambda>v. \<bar>v - c\<bar> ^ 2) vals). d = 0"
    using assms(2) by auto
  moreover have "map (\<lambda>v. \<bar>v - c\<bar> ^ 2) vals \<noteq> []"
    using assms(1) by simp
  ultimately have "np_mean (map (\<lambda>v. \<bar>v - c\<bar> ^ 2) vals) = Some 0"
    by (rule np_mean_constant [rotated])
  then show ?thesis
    by (simp add: np_std_def np_mean_constant [OF assms])
qed

lemma np_std_population:
  assumes "vals \<noteq> []"
  shows "np_std vals =
           Some (sqrt ((\<Sum>v\<leftarrow>vals. (v - sum_list vals / real (length vals)) ^ 2)
                        / real (length vals)))"
  using assms by (simp add: np_std_def np_mean_def)

text \<open>
  C7. Let \<open>vals\<close> be the pixel values at the positions where the mask of \<^verbatim>\<open>get_mask\<close> is
  true, and let there be at least one. Then \<^verbatim>\<open>get_mean_and_std\<close> returns their arithmetic
  mean and their population standard deviation, the square root of the sum of squared
  deviations divided by the number of values (not by one less); on an image whose pixels
  are all 5 it returns (5, 0). Floats are read as real numbers.
\<close>

theorem get_mean_and_std_population:
  assumes "get_mask cp self img = Inr msk"
    and "vals = nths (flat img) {i. i < length (flat msk) \<and> flat msk ! i}"
    and "vals \<noteq> []"
  shows "get_mean_and_std cp self img =
           Inr (Some (sum_list vals / real (length vals)),
                Some (sqrt ((\<Sum>v\<leftarrow>vals. (v - sum_list vals / real (length vals)) ^ 2)
                            / real (length vals))))
         \<and> ((\<forall>v\<in>set (flat img). v = 5) \<longrightarrow> get_mean_and_std cp self img = Inr (Some 5, Some 0))"
proof -
  have ex: "np_extract msk img = vals"
    using assms(2) by (simp add: np_extract_nths)
  have res: "get_mean_and_std cp self img = Inr (np_mean vals, np_std vals)"
    using assms(1) ex by (simp add: get_mean_and_std_def)
  have general: "get_mean_and_std cp self img =
           Inr (Some (sum_list vals / real (length vals)),
                Some (sqrt ((\<Sum>v\<leftarrow>vals. (v - sum_list vals / real (length vals)) ^ 2)
                            / real (length vals))))"
    using assms(3) by (simp add: res np_std_population) (simp add: np_mean_def)
  have uniform: "get_mean_and_std cp self img = Inr (Some 5, Some 0)"
    if u: "\<forall>v\<in>set (flat img). v = 5"
  proof -
    have "set vals \<subseteq> set (flat img)"
      unfolding assms(2) by (rule set_nths_subset)
    with u have c: "\<forall>v\<in>set vals. v = 5" by blast
    from np_mean_constant [OF assms(3) c] np_std_constant [OF assms(3) c] res
    show ?thesis by simp
  qed
  from general uniform show ?thesis by blast
qed

theorem get_mean_and_std_population_witness:
  "get_mask first_column segment_roi uniform_image =
     Inr \<lparr>shape_ny = 2, shape_nx = 2, flat = [True, False, True, False]\<rparr>
   \<and> nths (flat uniform_image) {i. i < length [True, False, True, False]
                                     \<and> [True, False, True, False] ! i} = [5, 5]
   \<and> set (flat uniform_image) = {5}
   \<and> get_mean_and_std first_column segment_roi uniform_image = Inr (Some 5, Some 0)"
proof -
  let ?msk = "\<lparr>shape_ny = 2, shape_nx = 2, flat = [True, False, True, False]\<rparr>"
  have pv: "poly_verts segment_roi = Inr [(1, 3), (2, 4), (1, 3)]"
    by (simp add: poly_verts_def example_defs roi_poly_defs)
  have g: "grid_points 2 2 = [(0, 0), (1, 0), (0, 1), (1, 1)]"
    by (simp add: grid_points_def numeral_2_eq_2)
  have m: "get_mask first_column segment_roi uniform_image = Inr ?msk"
    by (simp add: get_mask_result [OF pv] uniform_image_def g first_column_def)
  have v: "nths (flat uniform_image) {i. i < length (flat ?msk) \<and> flat ?msk ! i} = [5, 5]"
    by (simp add: uniform_image_def nths_Cons)
  have u: "\<forall>v\<in>set (flat uniform_image). v = 5"
    by (simp add: uniform_image_def)
  have ne: "[5, 5 :: real] \<noteq> []" by simp
  from get_mean_and_std_population [OF m v [symmetric] ne] u
  have "get_mean_and_std first_column segment_roi uniform_image = Inr (Some 5, Some 0)"
    by blast
  moreover have "set (flat uniform_image) = {5}"
    by (simp add: uniform_image_def)
  ultimately show ?thesis using m v by simp
qed

end
